theory Spec2Isabelle
  imports Main "HOL-Library.AList"
begin

section \<open>Data model\<close>

text \<open>
  Exceptions that leave the functions of the repository. \<open>HTTPException\<close> carries the
  status code, the detail text and the headers it was raised with.
\<close>

datatype exn =
    HTTPException (status_code: nat) (detail: string) (headers: "(string \<times> string) list")
  | AttributeError
  | ValueError

text \<open>
  The exceptions of the JWT library that \<open>except JWTError\<close> catches: \<open>JWTError\<close> itself
  (bad format, bad signature) and its subclasses.
\<close>

datatype jwt_error = JWTError | ExpiredSignatureError | JWTClaimsError

text \<open>
  A token payload is a Python dict from claim names to JSON values; time stamps are whole
  seconds since the epoch (the library writes \<open>iat\<close> and \<open>exp\<close> as integers).
  The dict is an association list with distinct keys: \<open>AList.update\<close> is \<open>dict.update\<close>
  for one key, \<open>map_of\<close> is \<open>dict.get\<close>.
\<close>

datatype jval = JStr string | JNum int

type_synonym claims = "(string \<times> jval) list"

text \<open>
  The JWT library (python-jose) is not part of the repository. Its strings are modelled
  symbolically: a token is either the signature of a payload under a key and an algorithm,
  or a string that is no such signature.
\<close>

datatype token = Jwt string string claims | Garbage string

definition jwt_encode :: "claims \<Rightarrow> string \<Rightarrow> string \<Rightarrow> token" where
  "jwt_encode to_encode key algorithm = Jwt key algorithm to_encode"

text \<open>
  \<open>jwt.decode(token, key, algorithms=[alg])\<close> at wall-clock time \<open>now\<close>: the signature
  must verify under the key and the algorithm, \<open>exp\<close> (when present) must be an integer
  that is not before \<open>now\<close>, and \<open>sub\<close> (when present) must be a string.
\<close>

definition jwt_decode :: "token \<Rightarrow> string \<Rightarrow> string \<Rightarrow> int \<Rightarrow> jwt_error + claims" where
  "jwt_decode tok key algorithm now =
     (case tok of
        Garbage s \<Rightarrow> Inl JWTError
      | Jwt k a payload \<Rightarrow>
          if k = key \<and> a = algorithm
          then (case map_of payload ''exp'' of
                  Some (JStr s) \<Rightarrow> Inl JWTClaimsError
                | Some (JNum e) \<Rightarrow>
                    if e < now then Inl ExpiredSignatureError
                    else (case map_of payload ''sub'' of
                            Some (JNum n) \<Rightarrow> Inl JWTClaimsError
                          | _ \<Rightarrow> Inr payload)
                | None \<Rightarrow>
                    (case map_of payload ''sub'' of
                       Some (JNum n) \<Rightarrow> Inl JWTClaimsError
                     | _ \<Rightarrow> Inr payload))
          else Inl JWTError)"

text \<open>
  Modelled from the spec: the table classes \<open>User\<close> and \<open>Contact\<close> of \<open>src.DB.models\<close>
  are not among the source files. Their columns follow the spec's data model and the
  attributes the repository functions read and write (\<open>uid\<close> and \<open>cid\<close> are the columns
  \<open>User.id\<close> and \<open>Contact.id\<close>, \<open>c_email\<close> and \<open>c_note\<close> are \<open>Contact.email\<close> and the note).
\<close>

record user =
  uid :: nat
  username :: string
  email :: string
  password :: string
  is_activated :: bool
  avatar :: "string option"
  refresh_token :: "token option"
  reset_token :: "token option"
  created_at :: int

datatype date = Date (year: nat) (month: nat) (day: nat)

record contact =
  cid :: nat
  first_name :: string
  last_name :: string
  c_email :: string
  phone :: string
  b_day :: date
  c_note :: "string option"
  user_id :: nat

text \<open>The database behind the session: the rows of the two tables.\<close>

record db =
  db_users :: "user list"
  db_contacts :: "contact list"

section \<open>Token issuer and verifier (services/authservice.py)\<close>

text \<open>
  \<open>SECRET_KEY\<close> and \<open>ALGR\<close> come from the settings, which are not among the source
  files: they are parameters. \<open>now\<close> is the reading of \<open>datetime.utcnow()\<close>;
  \<open>expires_delta\<close> is in whole seconds.
\<close>

definition create_access_token ::
  "string \<Rightarrow> string \<Rightarrow> int \<Rightarrow> claims \<Rightarrow> int option \<Rightarrow> token" where
  "create_access_token SECRET_KEY ALGR now data expires_delta =
     (let expires = (case expires_delta of
                       None \<Rightarrow> now + 15 * 60
                     | Some d \<Rightarrow> if d \<noteq> 0 then now + d else now + 15 * 60);
          to_encode = AList.update ''scope'' (JStr ''access_token'')
                        (AList.update ''exp'' (JNum expires)
                          (AList.update ''iat'' (JNum now) data))
      in jwt_encode to_encode SECRET_KEY ALGR)"

definition create_refresh_token ::
  "string \<Rightarrow> string \<Rightarrow> int \<Rightarrow> claims \<Rightarrow> int option \<Rightarrow> token" where
  "create_refresh_token SECRET_KEY ALGR now data expires_delta =
     (let expires = (case expires_delta of
                       None \<Rightarrow> now + 7 * 24 * 60 * 60
                     | Some d \<Rightarrow> if d \<noteq> 0 then now + d else now + 7 * 24 * 60 * 60);
          to_encode = AList.update ''scope'' (JStr ''access_token'')
                        (AList.update ''exp'' (JNum expires)
                          (AList.update ''iat'' (JNum now) data))
      in jwt_encode to_encode SECRET_KEY ALGR)"

definition create_email_token :: "string \<Rightarrow> string \<Rightarrow> int \<Rightarrow> claims \<Rightarrow> token" where
  "create_email_token SECRET_KEY ALGR now data =
     (let expire = now + 60 * 60;
          to_encode = AList.update ''scope'' (JStr ''email_token'')
                        (AList.update ''exp'' (JNum expire)
                          (AList.update ''iat'' (JNum now) data))
      in jwt_encode to_encode SECRET_KEY ALGR)"

text \<open>\<open>expire\<close> is the number of hours, 1 by default.\<close>

definition create_reset_token :: "string \<Rightarrow> string \<Rightarrow> int \<Rightarrow> claims \<Rightarrow> int \<Rightarrow> token" where
  "create_reset_token SECRET_KEY ALGR now data expire =
     (let expire' = now + expire * 60 * 60;
          to_encode = AList.update ''scope'' (JStr ''refresh'')
                        (AList.update ''exp'' (JNum expire')
                          (AList.update ''iat'' (JNum now) data))
      in jwt_encode to_encode SECRET_KEY ALGR)"

text \<open>\<open>select(User).where(User.email == email)\<close>, then \<open>scalar()\<close>: the first row or None.\<close>

definition repo_user_authentication_by_email :: "string \<Rightarrow> db \<Rightarrow> user option" where
  "repo_user_authentication_by_email e d = find (\<lambda>u. email u = e) (db_users d)"

definition credentials_exception :: exn where
  "credentials_exception =
     HTTPException 401 ''Could not validate credentials'' [(''WWW-Authenticate'', ''Bearer'')]"

text \<open>
  The \<open>try\<close> block of \<open>get_current_user\<close> (lines 131 to 139): decode the token, check the
  scope, read the subject. An \<open>HTTPException\<close> raised inside the block is no \<open>JWTError\<close>
  and leaves it as it is.
\<close>

definition get_current_user_email :: "string \<Rightarrow> string \<Rightarrow> int \<Rightarrow> token \<Rightarrow> exn + string" where
  "get_current_user_email SECRET_KEY ALGR now tok =
     (case jwt_decode tok SECRET_KEY ALGR now of
        Inl err \<Rightarrow> Inl credentials_exception
      | Inr payload \<Rightarrow>
          if map_of payload ''scope'' \<noteq> Some (JStr ''access_token'')
          then Inl credentials_exception
          else (case map_of payload ''sub'' of
                  None \<Rightarrow> Inl credentials_exception
                | Some (JStr e) \<Rightarrow> Inr e
                | Some (JNum n) \<Rightarrow> Inl credentials_exception))"

definition get_current_user :: "string \<Rightarrow> string \<Rightarrow> int \<Rightarrow> db \<Rightarrow> token \<Rightarrow> exn + user" where
  "get_current_user SECRET_KEY ALGR now d tok =
     (case get_current_user_email SECRET_KEY ALGR now tok of
        Inl ex \<Rightarrow> Inl ex
      | Inr e \<Rightarrow>
          (case repo_user_authentication_by_email e d of
             None \<Rightarrow> Inl credentials_exception
           | Some u \<Rightarrow> Inr u))"

definition decode_refresh_token :: "string \<Rightarrow> string \<Rightarrow> int \<Rightarrow> token \<Rightarrow> exn + jval option" where
  "decode_refresh_token SECRET_KEY ALGR now tok =
     (case jwt_decode tok SECRET_KEY ALGR now of
        Inr payload \<Rightarrow>
          if map_of payload ''scope'' = Some (JStr ''refresh_token'')
          then Inr (map_of payload ''sub'')
          else Inl (HTTPException 401 ''Invalid token scope'' [])
      | Inl err \<Rightarrow> Inl (HTTPException 401 ''Could not validate credentials'' []))"

text \<open>
  \<open>get_email_from_token\<close> and \<open>get_email_from_reset_token\<close> have no \<open>else\<close> branch: a
  payload of another scope falls off the end of the function, which returns None.
\<close>

definition get_email_from_token :: "string \<Rightarrow> string \<Rightarrow> int \<Rightarrow> token \<Rightarrow> exn + jval option" where
  "get_email_from_token SECRET_KEY ALGR now tok =
     (case jwt_decode tok SECRET_KEY ALGR now of
        Inr payload \<Rightarrow>
          if map_of payload ''scope'' = Some (JStr ''email_token'')
          then Inr (map_of payload ''sub'')
          else Inr None
      | Inl err \<Rightarrow> Inl (HTTPException 422 ''Invalid token for email confirmation.'' []))"

definition get_email_from_reset_token :: "string \<Rightarrow> string \<Rightarrow> int \<Rightarrow> token \<Rightarrow> exn + jval option" where
  "get_email_from_reset_token SECRET_KEY ALGR now tok =
     (case jwt_decode tok SECRET_KEY ALGR now of
        Inr payload \<Rightarrow>
          if map_of payload ''scope'' = Some (JStr ''refresh'')
          then Inr (map_of payload ''sub'')
          else Inr None
      | Inl err \<Rightarrow> Inl (HTTPException 422 ''Invalid token for password reset.'' []))"

section \<open>User directory (repository/users_repo.py)\<close>

text \<open>
  An attribute assignment on a row the session loaded, followed by \<open>commit\<close>, rewrites that
  row, the first one the query matched, and leaves the others as they are.
\<close>

fun update_first :: "('a \<Rightarrow> bool) \<Rightarrow> ('a \<Rightarrow> 'a) \<Rightarrow> 'a list \<Rightarrow> 'a list" where
  "update_first P f [] = []"
| "update_first P f (x # xs) = (if P x then f x # xs else x # update_first P f xs)"

text \<open>
  \<open>confirmed_email\<close> does not test the row it looked up: when no user has the email,
  \<open>user\<close> is None and \<open>user.is_activated = True\<close> raises \<open>AttributeError\<close> before the commit.
\<close>

definition confirmed_email :: "string \<Rightarrow> db \<Rightarrow> exn + db" where
  "confirmed_email e d =
     (case repo_user_authentication_by_email e d of
        None \<Rightarrow> Inl AttributeError
      | Some u \<Rightarrow>
          Inr (d\<lparr>db_users :=
                 update_first (\<lambda>x. email x = e) (\<lambda>x. x\<lparr>is_activated := True\<rparr>) (db_users d)\<rparr>))"

section \<open>Contact store (repository/contacts_repo.py)\<close>

definition get_specific_contact_belongs_to_user :: "nat \<Rightarrow> user \<Rightarrow> db \<Rightarrow> contact option" where
  "get_specific_contact_belongs_to_user i u d =
     find (\<lambda>c. user_id c = uid u \<and> cid c = i) (db_contacts d)"

text \<open>
  The statement is \<open>SELECT ... WHERE user_id = :id ORDER BY id ASC LIMIT :limit OFFSET :offset\<close>
  whatever the order of the builder calls; \<open>limit\<close> and \<open>offset\<close> are not negative.
\<close>

definition repo_get_contacts :: "db \<Rightarrow> user \<Rightarrow> nat \<Rightarrow> nat \<Rightarrow> contact list" where
  "repo_get_contacts d u limit offset =
     take limit (drop offset (sort_key cid (filter (\<lambda>c. user_id c = uid u) (db_contacts d))))"

definition repo_get_contact_by_id :: "nat \<Rightarrow> user \<Rightarrow> db \<Rightarrow> exn + contact" where
  "repo_get_contact_by_id i u d =
     (case get_specific_contact_belongs_to_user i u d of
        None \<Rightarrow> Inl (HTTPException 404 ''Contact not found'' [])
      | Some c \<Rightarrow> Inr c)"

text \<open>
  \<open>body.dict(exclude_unset=True).items()\<close>: the fields the request set, each with its value.
  The schema \<open>ContactUpdate\<close> is not among the source files; its fields are the contact's
  attributes of the spec.
\<close>

datatype field_value =
    First_name string
  | Last_name string
  | Email string
  | Phone string
  | B_day date
  | Note "string option"

fun setattr :: "contact \<Rightarrow> field_value \<Rightarrow> contact" where
  "setattr c (First_name v) = c\<lparr>first_name := v\<rparr>"
| "setattr c (Last_name v) = c\<lparr>last_name := v\<rparr>"
| "setattr c (Email v) = c\<lparr>c_email := v\<rparr>"
| "setattr c (Phone v) = c\<lparr>phone := v\<rparr>"
| "setattr c (B_day v) = c\<lparr>b_day := v\<rparr>"
| "setattr c (Note v) = c\<lparr>c_note := v\<rparr>"

definition repo_update_contact_db ::
  "nat \<Rightarrow> user \<Rightarrow> field_value list \<Rightarrow> db \<Rightarrow> exn + contact \<times> db" where
  "repo_update_contact_db i u body d =
     (case get_specific_contact_belongs_to_user i u d of
        None \<Rightarrow> Inl (HTTPException 404 ''Contact not found'' [])
      | Some c \<Rightarrow>
          (let c' = fold (\<lambda>fv acc. setattr acc fv) body c
           in Inr (c', d\<lparr>db_contacts :=
                          update_first (\<lambda>x. user_id x = uid u \<and> cid x = i) (\<lambda>x. c')
                            (db_contacts d)\<rparr>)))"

text \<open>The result is the value of the key \<open>message\<close> of the returned dict, and the new rows.\<close>

definition repo_delete_contact_db :: "nat \<Rightarrow> user \<Rightarrow> db \<Rightarrow> exn + string \<times> db" where
  "repo_delete_contact_db i u d =
     (case get_specific_contact_belongs_to_user i u d of
        None \<Rightarrow> Inl (HTTPException 404 ''Contact not found'' [])
      | Some c \<Rightarrow>
          (let contact_name = first_name c @ '' '' @ last_name c
           in Inr (''Contact '' @ [CHR 0x27] @ contact_name @ [CHR 0x27] @ '' successfully deleted'',
                   d\<lparr>db_contacts := remove1 c (db_contacts d)\<rparr>)))"

text \<open>
  \<open>str.lower()\<close> and SQL \<open>lower\<close> on the ASCII letters (a \<open>char\<close> is a byte; case mapping
  beyond ASCII is not modelled).
\<close>

definition lower_char :: "char \<Rightarrow> char" where
  "lower_char c =
     (let n = (of_char c :: nat) in if 65 \<le> n \<and> n \<le> 90 then char_of (n + 32) else c)"

definition lower :: "string \<Rightarrow> string" where
  "lower s = map lower_char s"

text \<open>
  The SQL operator \<open>s LIKE pattern\<close> with no escape character: \<open>%\<close> stands for any
  sequence of characters, the underscore for any one character, every other character for
  itself.
\<close>

fun like :: "string \<Rightarrow> string \<Rightarrow> bool" where
  "like [] [] = True"
| "like (c # s) [] = False"
| "like [] (p # ps) = (p = CHR ''%'' \<and> like [] ps)"
| "like (c # s) (p # ps) =
     (if p = CHR ''%'' then like (c # s) ps \<or> like s (p # ps)
      else (p = CHR ''_'' \<or> c = p) \<and> like s ps)"

definition repo_get_contacts_query :: "user \<Rightarrow> string \<Rightarrow> nat \<Rightarrow> nat \<Rightarrow> db \<Rightarrow> contact list" where
  "repo_get_contacts_query u query limit offset d =
     (let search_query = ''%'' @ query @ ''%'';
          lower_search_query = lower search_query
      in take limit (drop offset (sort_key cid
           (filter (\<lambda>c. user_id c = uid u \<and>
                         (like (lower (first_name c)) lower_search_query \<or>
                          like (lower (last_name c)) lower_search_query \<or>
                          like (lower (c_email c)) lower_search_query))
              (db_contacts d)))))"

subsection \<open>Calendar dates\<close>

definition is_leap :: "nat \<Rightarrow> bool" where
  "is_leap y = (y mod 4 = 0 \<and> (y mod 400 = 0 \<or> y mod 100 \<noteq> 0))"

definition days_in_month :: "nat \<Rightarrow> nat \<Rightarrow> nat" where
  "days_in_month y m =
     (if m = 2 then (if is_leap y then 29 else 28)
      else if m = 4 \<or> m = 6 \<or> m = 9 \<or> m = 11 then 30 else 31)"

text \<open>
  \<open>datetime.datetime(year, month, day).date()\<close>: the constructor raises \<open>ValueError\<close> for a
  year outside 1..9999, a month outside 1..12 or a day the month does not have.
\<close>

definition datetime_date :: "nat \<Rightarrow> nat \<Rightarrow> nat \<Rightarrow> exn + date" where
  "datetime_date y m dd =
     (if 1 \<le> y \<and> y \<le> 9999 \<and> 1 \<le> m \<and> m \<le> 12 \<and> 1 \<le> dd \<and> dd \<le> days_in_month y m
      then Inr (Date y m dd) else Inl ValueError)"

fun date_le :: "date \<Rightarrow> date \<Rightarrow> bool" where
  "date_le (Date y1 m1 d1) (Date y2 m2 d2) =
     (y1 < y2 \<or> (y1 = y2 \<and> (m1 < m2 \<or> (m1 = m2 \<and> d1 \<le> d2))))"

fun next_day :: "date \<Rightarrow> date" where
  "next_day (Date y m dd) =
     (if dd < days_in_month y m then Date y m (dd + 1)
      else if m < 12 then Date y (m + 1) 1
      else Date (y + 1) 1 1)"

text \<open>\<open>date + timedelta(days=n)\<close>, for a date far from the year 9999.\<close>

fun add_days :: "date \<Rightarrow> nat \<Rightarrow> date" where
  "add_days dt 0 = dt"
| "add_days dt (Suc n) = add_days (next_day dt) n"

text \<open>
  The \<open>for\<close> loop of \<open>repo_get_upcoming_birthday_contacts\<close> over the remaining contacts, with
  \<open>answer_contacts\<close> as accumulator. An exception of the date constructor ends the loop and
  the function.
\<close>

fun upcoming_loop :: "date \<Rightarrow> date \<Rightarrow> contact list \<Rightarrow> contact list \<Rightarrow> exn + contact list" where
  "upcoming_loop today end_date [] answer_contacts = Inr answer_contacts"
| "upcoming_loop today end_date (c # cs) answer_contacts =
     (case datetime_date (year today) (month (b_day c)) (day (b_day c)) of
        Inl ex \<Rightarrow> Inl ex
      | Inr today_year_b_day \<Rightarrow>
          upcoming_loop today end_date cs
            (if date_le today today_year_b_day \<and> date_le today_year_b_day end_date
             then answer_contacts @ [c] else answer_contacts))"

text \<open>\<open>today\<close> is the reading of \<open>datetime.datetime.now().date()\<close>.\<close>

definition repo_get_upcoming_birthday_contacts :: "user \<Rightarrow> date \<Rightarrow> db \<Rightarrow> exn + contact list" where
  "repo_get_upcoming_birthday_contacts u today d =
     (let end_date = add_days today 7;
          contacts = filter (\<lambda>c. user_id c = uid u) (db_contacts d)
      in upcoming_loop today end_date contacts [])"

section \<open>Properties of the token issuer and verifier\<close>

lemma decode_keeps_scope:
  "jwt_decode (Jwt K A (AList.update ''scope'' v al)) K' A' t = Inr p \<Longrightarrow>
   map_of p ''scope'' = Some v"
  by (auto simp: jwt_decode_def update_conv' split: if_splits option.splits jval.splits)

lemma decode_refresh_wrong_scope:
  "v \<noteq> JStr ''refresh_token'' \<Longrightarrow>
   \<exists>dt. decode_refresh_token K A t (Jwt K' A' (AList.update ''scope'' v al))
          = Inl (HTTPException 401 dt [])"
  by (cases "jwt_decode (Jwt K' A' (AList.update ''scope'' v al)) K A t")
     (auto simp: decode_refresh_token_def dest: decode_keeps_scope)

text \<open>
  The refresh token of a registered user passes \<open>get_current_user\<close> for as long as it has
  not expired: it carries the scope of an access token.
\<close>

lemma refresh_token_passes_get_current_user:
  assumes "repo_user_authentication_by_email e d = Some u" and "t \<le> now + 7 * 24 * 60 * 60"
  shows "get_current_user K A t d (create_refresh_token K A now [(''sub'', JStr e)] None) = Inr u"
  using assms
  by (simp add: get_current_user_def get_current_user_email_def create_refresh_token_def
        jwt_encode_def jwt_decode_def)

text \<open>
  Claim C1 says that a refresh token presented to \<open>get_current_user\<close> in place of an access
  token is answered with HTTP 401. The code does not do so: with the user a@x.com
  registered, the refresh token issued for that email at time 1000 and presented at time
  1060 is accepted, and \<open>get_current_user\<close> returns the user.
\<close>

theorem refresh_token_accepted_as_access_token:
  "get_current_user ''secret'' ''HS256'' 1060
     \<lparr>db_users =
        [\<lparr>uid = 1, username = ''a'', email = ''a@x.com'', password = ''hash'',
          is_activated = True, avatar = None,
          refresh_token = Some (create_refresh_token ''secret'' ''HS256'' 1000
                                  [(''sub'', JStr ''a@x.com'')] None),
          reset_token = None, created_at = 1000\<rparr>],
       db_contacts = []\<rparr>
     (create_refresh_token ''secret'' ''HS256'' 1000 [(''sub'', JStr ''a@x.com'')] None)
   = Inr \<lparr>uid = 1, username = ''a'', email = ''a@x.com'', password = ''hash'',
          is_activated = True, avatar = None,
          refresh_token = Some (create_refresh_token ''secret'' ''HS256'' 1000
                                  [(''sub'', JStr ''a@x.com'')] None),
          reset_token = None, created_at = 1000\<rparr>"
  by (simp add: get_current_user_def get_current_user_email_def create_refresh_token_def
        jwt_encode_def jwt_decode_def repo_user_authentication_by_email_def)

text \<open>
  Claim C2: for every subject string, the access token issued for \<open>{"sub": subject}\<close> and
  verified at a time \<open>t\<close> not after its expiry passes the token check of \<open>get_current_user\<close>,
  which yields the same subject; \<open>get_current_user\<close> then returns the user row of that
  email (and its credentials exception when no user has it).
\<close>

theorem access_token_round_trip:
  assumes "t \<le> (case expires_delta of
                   None \<Rightarrow> now + 15 * 60
                 | Some dl \<Rightarrow> if dl \<noteq> 0 then now + dl else now + 15 * 60)"
  shows "get_current_user_email K A t
           (create_access_token K A now [(''sub'', JStr subject)] expires_delta) = Inr subject
       \<and> get_current_user K A t d
           (create_access_token K A now [(''sub'', JStr subject)] expires_delta) =
           (case repo_user_authentication_by_email subject d of
              None \<Rightarrow> Inl credentials_exception
            | Some u \<Rightarrow> Inr u)"
  using assms
  by (auto simp: get_current_user_def get_current_user_email_def create_access_token_def
        jwt_encode_def jwt_decode_def Let_def split: option.splits)

text \<open>
  Witness of C2: the token issued at time 1000 with the default life of 15 minutes,
  verified at time 1500.
\<close>

theorem access_token_round_trip_witness:
  "(1500::int) \<le> 1000 + 15 * 60
 \<and> get_current_user_email ''k'' ''HS256'' 1500
     (create_access_token ''k'' ''HS256'' 1000 [(''sub'', JStr ''a@x.com'')] None)
     = Inr ''a@x.com''"
  using access_token_round_trip [where t = 1500 and expires_delta = None and now = 1000
      and K = "''k''" and A = "''HS256''" and subject = "''a@x.com''"]
  by simp

text \<open>
  Claim C4: \<open>get_email_from_token\<close> and \<open>get_email_from_reset_token\<close> raise exactly when
  decoding the token fails, and what they raise is their HTTP 422 exception; a token that
  decodes but carries another scope makes them return None.
\<close>

theorem email_and_reset_token_verification:
  "((\<exists>ex. get_email_from_token K A t tok = Inl ex) \<longleftrightarrow> (\<exists>e. jwt_decode tok K A t = Inl e))
 \<and> (\<forall>ex. get_email_from_token K A t tok = Inl ex \<longrightarrow>
        ex = HTTPException 422 ''Invalid token for email confirmation.'' [])
 \<and> (\<forall>p. jwt_decode tok K A t = Inr p \<and> map_of p ''scope'' \<noteq> Some (JStr ''email_token'') \<longrightarrow>
        get_email_from_token K A t tok = Inr None)
 \<and> ((\<exists>ex. get_email_from_reset_token K A t tok = Inl ex) \<longleftrightarrow>
        (\<exists>e. jwt_decode tok K A t = Inl e))
 \<and> (\<forall>ex. get_email_from_reset_token K A t tok = Inl ex \<longrightarrow>
        ex = HTTPException 422 ''Invalid token for password reset.'' [])
 \<and> (\<forall>p. jwt_decode tok K A t = Inr p \<and> map_of p ''scope'' \<noteq> Some (JStr ''refresh'') \<longrightarrow>
        get_email_from_reset_token K A t tok = Inr None)"
  by (cases "jwt_decode tok K A t")
     (auto simp: get_email_from_token_def get_email_from_reset_token_def)

text \<open>
  Witness of C4: a reset token given to the email verifier and an email token given to the
  reset verifier are answered with None; a string that is no token is answered with 422.
\<close>

theorem email_and_reset_token_verification_witness:
  "get_email_from_token ''k'' ''HS256'' 100
     (Jwt ''k'' ''HS256''
        [(''sub'', JStr ''a@x.com''), (''exp'', JNum 200), (''scope'', JStr ''refresh'')])
     = Inr None
 \<and> get_email_from_token ''k'' ''HS256'' 100 (Garbage ''abc'')
     = Inl (HTTPException 422 ''Invalid token for email confirmation.'' [])
 \<and> get_email_from_reset_token ''k'' ''HS256'' 100
     (Jwt ''k'' ''HS256''
        [(''sub'', JStr ''a@x.com''), (''exp'', JNum 200), (''scope'', JStr ''email_token'')])
     = Inr None
 \<and> get_email_from_reset_token ''k'' ''HS256'' 100 (Garbage ''abc'')
     = Inl (HTTPException 422 ''Invalid token for password reset.'' [])"
  using email_and_reset_token_verification [of "''k''" "''HS256''" 100
      "Jwt ''k'' ''HS256''
         [(''sub'', JStr ''a@x.com''), (''exp'', JNum 200), (''scope'', JStr ''refresh'')]"]
    email_and_reset_token_verification [of "''k''" "''HS256''" 100
      "Jwt ''k'' ''HS256''
         [(''sub'', JStr ''a@x.com''), (''exp'', JNum 200), (''scope'', JStr ''email_token'')]"]
    email_and_reset_token_verification [of "''k''" "''HS256''" 100 "Garbage ''abc''"]
  by (auto simp: jwt_decode_def)

text \<open>
  Claim C8 says that every 401 carries the one generic message. \<open>decode_refresh_token\<close>
  does not: a well-signed, unexpired token of another scope is answered with the detail
  "Invalid token scope", a string that is no token with "Could not validate credentials".
\<close>

theorem decode_refresh_token_reveals_scope_check:
  "decode_refresh_token ''secret'' ''HS256'' 100
     (Jwt ''secret'' ''HS256''
        [(''sub'', JStr ''a@x.com''), (''exp'', JNum 200), (''scope'', JStr ''access_token'')])
     = Inl (HTTPException 401 ''Invalid token scope'' [])
 \<and> decode_refresh_token ''secret'' ''HS256'' 100 (Garbage ''abc'')
     = Inl (HTTPException 401 ''Could not validate credentials'' [])"
  by (simp add: decode_refresh_token_def jwt_decode_def)

text \<open>
  Claim C8 as amended: every failure of \<open>get_current_user\<close> (token that does not decode,
  expired token, other scope, no subject, no user of that email) is the same exception,
  HTTP 401 "Could not validate credentials" with the header WWW-Authenticate: Bearer.
  Every failure of \<open>decode_refresh_token\<close> is HTTP 401 too, with the detail
  "Invalid token scope" when the token decodes and carries another scope, and
  "Could not validate credentials" when decoding fails.
\<close>

theorem unauthorized_responses:
  "(\<forall>ex. get_current_user K A t d tok = Inl ex \<longrightarrow> ex = credentials_exception)
 \<and> (\<forall>ex. decode_refresh_token K A t tok = Inl ex \<longrightarrow>
       ((\<exists>p. jwt_decode tok K A t = Inr p \<and> map_of p ''scope'' \<noteq> Some (JStr ''refresh_token''))
          \<and> ex = HTTPException 401 ''Invalid token scope'' [])
     \<or> ((\<exists>e. jwt_decode tok K A t = Inl e)
          \<and> ex = HTTPException 401 ''Could not validate credentials'' []))"
  by (cases "jwt_decode tok K A t")
     (auto simp: get_current_user_def get_current_user_email_def decode_refresh_token_def
        split: option.splits jval.splits sum.splits if_splits)

text \<open>
  Witness of C8 as amended: a string that is no token, an expired access token and an
  email token are all answered by \<open>get_current_user\<close> with the same exception.
\<close>

theorem unauthorized_responses_witness:
  "get_current_user ''secret'' ''HS256'' 100 \<lparr>db_users = [], db_contacts = []\<rparr> (Garbage ''abc'')
     = Inl (HTTPException 401 ''Could not validate credentials''
              [(''WWW-Authenticate'', ''Bearer'')])
 \<and> get_current_user ''secret'' ''HS256'' 300 \<lparr>db_users = [], db_contacts = []\<rparr>
     (Jwt ''secret'' ''HS256''
        [(''sub'', JStr ''a@x.com''), (''exp'', JNum 200), (''scope'', JStr ''access_token'')])
     = Inl (HTTPException 401 ''Could not validate credentials''
              [(''WWW-Authenticate'', ''Bearer'')])
 \<and> get_current_user ''secret'' ''HS256'' 100 \<lparr>db_users = [], db_contacts = []\<rparr>
     (Jwt ''secret'' ''HS256''
        [(''sub'', JStr ''a@x.com''), (''exp'', JNum 200), (''scope'', JStr ''email_token'')])
     = Inl (HTTPException 401 ''Could not validate credentials''
              [(''WWW-Authenticate'', ''Bearer'')])"
  using unauthorized_responses [of "''secret''" "''HS256''" 100
      "\<lparr>db_users = [], db_contacts = []\<rparr>" "Garbage ''abc''"]
    unauthorized_responses [of "''secret''" "''HS256''" 300
      "\<lparr>db_users = [], db_contacts = []\<rparr>"
      "Jwt ''secret'' ''HS256''
        [(''sub'', JStr ''a@x.com''), (''exp'', JNum 200), (''scope'', JStr ''access_token'')]"]
    unauthorized_responses [of "''secret''" "''HS256''" 100
      "\<lparr>db_users = [], db_contacts = []\<rparr>"
      "Jwt ''secret'' ''HS256''
        [(''sub'', JStr ''a@x.com''), (''exp'', JNum 200), (''scope'', JStr ''email_token'')]"]
  by (simp add: get_current_user_def get_current_user_email_def jwt_decode_def
        credentials_exception_def)

text \<open>
  Claim C9: whatever payload the caller passes, a token made by any of the four issuers is
  answered by \<open>decode_refresh_token\<close> with an HTTP 401 exception, at every time of
  verification: the issuers overwrite the scope with "access_token", "email_token" or
  "refresh", and \<open>decode_refresh_token\<close> accepts "refresh_token" only.
\<close>

theorem issued_tokens_fail_refresh_verification:
  "(\<exists>dt. decode_refresh_token K A t (create_access_token K A now data expires_delta)
          = Inl (HTTPException 401 dt []))
 \<and> (\<exists>dt. decode_refresh_token K A t (create_refresh_token K A now data expires_delta)
          = Inl (HTTPException 401 dt []))
 \<and> (\<exists>dt. decode_refresh_token K A t (create_email_token K A now data)
          = Inl (HTTPException 401 dt []))
 \<and> (\<exists>dt. decode_refresh_token K A t (create_reset_token K A now data expire)
          = Inl (HTTPException 401 dt []))"
  by (simp add: create_access_token_def create_refresh_token_def create_email_token_def
        create_reset_token_def jwt_encode_def Let_def decode_refresh_wrong_scope)

section \<open>Properties of the user directory\<close>

lemma find_update_first:
  "find P xs = Some x \<Longrightarrow> P (f x) \<Longrightarrow> find P (update_first P f xs) = Some (f x)"
  by (induction xs) (auto split: if_splits)

lemma update_first_idem:
  "(\<And>x. P x \<Longrightarrow> P (f x)) \<Longrightarrow> (\<And>x. f (f x) = f x) \<Longrightarrow>
   update_first P f (update_first P f xs) = update_first P f xs"
  by (induction xs) auto

lemma update_first_fixed:
  "find P xs = Some x \<Longrightarrow> f x = x \<Longrightarrow> update_first P f xs = xs"
  by (induction xs) (auto split: if_splits)

lemma update_first_others:
  "(\<And>x. P x \<Longrightarrow> P (f x)) \<Longrightarrow>
   filter (\<lambda>x. \<not> P x) (update_first P f xs) = filter (\<lambda>x. \<not> P x) xs"
  by (induction xs) auto

text \<open>
  Claim C5 says that \<open>confirmed_email\<close> fails silently, with no error, when no user has the
  email. It does not: on a database with no such user the call ends in \<open>AttributeError\<close>.
\<close>

theorem confirmed_email_unknown_email_raises:
  "confirmed_email ''nobody@x.com'' \<lparr>db_users = [], db_contacts = []\<rparr> = Inl AttributeError"
  by (simp add: confirmed_email_def repo_user_authentication_by_email_def)

text \<open>
  Claim C5 as amended: when a user has the email, \<open>confirmed_email\<close> sets the activation
  flag of that user to true and changes nothing else (the rows of the other emails and the
  contacts stay as they are); a second call changes nothing, and when the flag is already
  true the first call changes nothing either. The caller makes sure that a user has the
  email before it calls.
\<close>

theorem confirmed_email_activates:
  "\<forall>u. repo_user_authentication_by_email e d = Some u \<longrightarrow>
      (\<exists>d'. confirmed_email e d = Inr d'
         \<and> repo_user_authentication_by_email e d' = Some (u\<lparr>is_activated := True\<rparr>)
         \<and> filter (\<lambda>v. email v \<noteq> e) (db_users d') = filter (\<lambda>v. email v \<noteq> e) (db_users d)
         \<and> db_contacts d' = db_contacts d
         \<and> confirmed_email e d' = Inr d'
         \<and> (is_activated u \<longrightarrow> d' = d))"
proof (intro allI impI)
  fix u
  assume f: "repo_user_authentication_by_email e d = Some u"
  let ?P = "\<lambda>x. email x = e"
  let ?f = "\<lambda>x::user. x\<lparr>is_activated := True\<rparr>"
  let ?d' = "d\<lparr>db_users := update_first ?P ?f (db_users d)\<rparr>"
  have fd: "find ?P (db_users d) = Some u"
    using f by (simp add: repo_user_authentication_by_email_def)
  have 1: "confirmed_email e d = Inr ?d'"
    using f by (simp add: confirmed_email_def)
  have fd': "find ?P (db_users ?d') = Some (?f u)"
  proof -
    have "email u = e" using fd by (auto simp: find_Some_iff)
    then show ?thesis using find_update_first [OF fd, of ?f] by simp
  qed
  have 2: "repo_user_authentication_by_email e ?d' = Some (?f u)"
    using fd' by (simp add: repo_user_authentication_by_email_def)
  have 3: "filter (\<lambda>v. email v \<noteq> e) (db_users ?d') = filter (\<lambda>v. email v \<noteq> e) (db_users d)"
    using update_first_others [of ?P ?f "db_users d"] by simp
  have 4: "db_contacts ?d' = db_contacts d" by simp
  have 5: "confirmed_email e ?d' = Inr ?d'"
    using 2 update_first_idem [of ?P ?f "db_users d"] by (simp add: confirmed_email_def)
  have 6: "is_activated u \<longrightarrow> ?d' = d"
    using update_first_fixed [OF fd, of ?f] by auto
  show "\<exists>d'. confirmed_email e d = Inr d'
         \<and> repo_user_authentication_by_email e d' = Some (u\<lparr>is_activated := True\<rparr>)
         \<and> filter (\<lambda>v. email v \<noteq> e) (db_users d') = filter (\<lambda>v. email v \<noteq> e) (db_users d)
         \<and> db_contacts d' = db_contacts d
         \<and> confirmed_email e d' = Inr d'
         \<and> (is_activated u \<longrightarrow> d' = d)"
    using 1 2 3 4 5 6 by blast
qed

text \<open>
  Witness of C5 as amended: the user a@x.com is activated by the first call and left as it
  is by the second.
\<close>

theorem confirmed_email_activates_witness:
  "confirmed_email ''a@x.com''
     \<lparr>db_users = [\<lparr>uid = 1, username = ''a'', email = ''a@x.com'', password = ''hash'',
        is_activated = False, avatar = None, refresh_token = None, reset_token = None,
        created_at = 1000\<rparr>], db_contacts = []\<rparr>
   = Inr \<lparr>db_users = [\<lparr>uid = 1, username = ''a'', email = ''a@x.com'', password = ''hash'',
        is_activated = True, avatar = None, refresh_token = None, reset_token = None,
        created_at = 1000\<rparr>], db_contacts = []\<rparr>
 \<and> confirmed_email ''a@x.com''
     \<lparr>db_users = [\<lparr>uid = 1, username = ''a'', email = ''a@x.com'', password = ''hash'',
        is_activated = True, avatar = None, refresh_token = None, reset_token = None,
        created_at = 1000\<rparr>], db_contacts = []\<rparr>
   = Inr \<lparr>db_users = [\<lparr>uid = 1, username = ''a'', email = ''a@x.com'', password = ''hash'',
        is_activated = True, avatar = None, refresh_token = None, reset_token = None,
        created_at = 1000\<rparr>], db_contacts = []\<rparr>"
  using confirmed_email_activates [of "''a@x.com''"
      "\<lparr>db_users = [\<lparr>uid = 1, username = ''a'', email = ''a@x.com'', password = ''hash'',
        is_activated = False, avatar = None, refresh_token = None, reset_token = None,
        created_at = 1000\<rparr>], db_contacts = []\<rparr>"]
  by (simp add: repo_user_authentication_by_email_def confirmed_email_def)

section \<open>Properties of the contact store\<close>

lemma find_None_iff_ball: "(find P xs = None) = (\<forall>x\<in>set xs. \<not> P x)"
  by (induction xs) auto

lemma lookup_not_owned:
  "\<forall>c\<in>set (db_contacts d). cid c = i \<longrightarrow> user_id c \<noteq> uid a \<Longrightarrow>
   get_specific_contact_belongs_to_user i a d = None"
  by (auto simp: get_specific_contact_belongs_to_user_def find_None_iff_ball)

text \<open>
  Claim C3: when no contact of the id \<open>i\<close> belongs to the user \<open>a\<close> (there is no such
  contact, or it belongs to another user), then get, update and delete as \<open>a\<close> all raise the
  same HTTP 404 "Contact not found", and each answers as it does on the database from
  which the contacts of that id are removed.
\<close>

theorem not_owned_contact_is_not_found:
  assumes "\<forall>c\<in>set (db_contacts d). cid c = i \<longrightarrow> user_id c \<noteq> uid a"
  shows "repo_get_contact_by_id i a d = Inl (HTTPException 404 ''Contact not found'' [])
       \<and> repo_update_contact_db i a body d = Inl (HTTPException 404 ''Contact not found'' [])
       \<and> repo_delete_contact_db i a d = Inl (HTTPException 404 ''Contact not found'' [])
       \<and> repo_get_contact_by_id i a d =
           repo_get_contact_by_id i a
             (d\<lparr>db_contacts := filter (\<lambda>c. cid c \<noteq> i) (db_contacts d)\<rparr>)
       \<and> repo_update_contact_db i a body d =
           repo_update_contact_db i a body
             (d\<lparr>db_contacts := filter (\<lambda>c. cid c \<noteq> i) (db_contacts d)\<rparr>)
       \<and> repo_delete_contact_db i a d =
           repo_delete_contact_db i a
             (d\<lparr>db_contacts := filter (\<lambda>c. cid c \<noteq> i) (db_contacts d)\<rparr>)"
proof -
  let ?d' = "d\<lparr>db_contacts := filter (\<lambda>c. cid c \<noteq> i) (db_contacts d)\<rparr>"
  have n: "get_specific_contact_belongs_to_user i a d = None"
    using assms by (rule lookup_not_owned)
  have n': "get_specific_contact_belongs_to_user i a ?d' = None"
    by (rule lookup_not_owned) simp
  show ?thesis
    by (simp add: repo_get_contact_by_id_def repo_update_contact_db_def
          repo_delete_contact_db_def n n')
qed

text \<open>
  Witness of C3: contact 5 belongs to user 2; user 1 asks for it, updates it and deletes
  it, and asks for contact 7, which does not exist.
\<close>

theorem not_owned_contact_is_not_found_witness:
  "repo_get_contact_by_id 5
     \<lparr>uid = 1, username = ''a'', email = ''a@x.com'', password = ''hash'',
       is_activated = True, avatar = None, refresh_token = None, reset_token = None,
       created_at = 1000\<rparr>
     \<lparr>db_users = [],
      db_contacts = [\<lparr>cid = 5, first_name = ''John'', last_name = ''Doe'',
         c_email = ''jd@x.com'', phone = ''123'', b_day = Date 1990 4 1, c_note = None,
         user_id = 2\<rparr>]\<rparr>
     = Inl (HTTPException 404 ''Contact not found'' [])
 \<and> repo_get_contact_by_id 7
     \<lparr>uid = 1, username = ''a'', email = ''a@x.com'', password = ''hash'',
       is_activated = True, avatar = None, refresh_token = None, reset_token = None,
       created_at = 1000\<rparr>
     \<lparr>db_users = [],
      db_contacts = [\<lparr>cid = 5, first_name = ''John'', last_name = ''Doe'',
         c_email = ''jd@x.com'', phone = ''123'', b_day = Date 1990 4 1, c_note = None,
         user_id = 2\<rparr>]\<rparr>
     = Inl (HTTPException 404 ''Contact not found'' [])
 \<and> repo_update_contact_db 5
     \<lparr>uid = 1, username = ''a'', email = ''a@x.com'', password = ''hash'',
       is_activated = True, avatar = None, refresh_token = None, reset_token = None,
       created_at = 1000\<rparr>
     [First_name ''Jim'']
     \<lparr>db_users = [],
      db_contacts = [\<lparr>cid = 5, first_name = ''John'', last_name = ''Doe'',
         c_email = ''jd@x.com'', phone = ''123'', b_day = Date 1990 4 1, c_note = None,
         user_id = 2\<rparr>]\<rparr>
     = Inl (HTTPException 404 ''Contact not found'' [])
 \<and> repo_delete_contact_db 5
     \<lparr>uid = 1, username = ''a'', email = ''a@x.com'', password = ''hash'',
       is_activated = True, avatar = None, refresh_token = None, reset_token = None,
       created_at = 1000\<rparr>
     \<lparr>db_users = [],
      db_contacts = [\<lparr>cid = 5, first_name = ''John'', last_name = ''Doe'',
         c_email = ''jd@x.com'', phone = ''123'', b_day = Date 1990 4 1, c_note = None,
         user_id = 2\<rparr>]\<rparr>
     = Inl (HTTPException 404 ''Contact not found'' [])"
  using not_owned_contact_is_not_found [where i = 5 and body = "[First_name ''Jim'']"
      and a = "\<lparr>uid = 1, username = ''a'', email = ''a@x.com'', password = ''hash'',
       is_activated = True, avatar = None, refresh_token = None, reset_token = None,
       created_at = 1000\<rparr>"
      and d = "\<lparr>db_users = [],
      db_contacts = [\<lparr>cid = 5, first_name = ''John'', last_name = ''Doe'',
         c_email = ''jd@x.com'', phone = ''123'', b_day = Date 1990 4 1, c_note = None,
         user_id = 2\<rparr>]\<rparr>"]
    not_owned_contact_is_not_found [where i = 7 and body = "[]"
      and a = "\<lparr>uid = 1, username = ''a'', email = ''a@x.com'', password = ''hash'',
       is_activated = True, avatar = None, refresh_token = None, reset_token = None,
       created_at = 1000\<rparr>"
      and d = "\<lparr>db_users = [],
      db_contacts = [\<lparr>cid = 5, first_name = ''John'', last_name = ''Doe'',
         c_email = ''jd@x.com'', phone = ''123'', b_day = Date 1990 4 1, c_note = None,
         user_id = 2\<rparr>]\<rparr>"]
  by simp

lemma like_percent [simp]: "like s ''%''"
  by (induction s) auto

lemma like_percent_percent: "like s ''%%''"
  by (cases s) auto

text \<open>
  Claim C7: the search with the empty query returns what the listing returns, for every
  limit and offset (so also for offset 0 and a limit no smaller than the number of rows):
  the pattern is \<open>%%\<close>, which every first name matches.
\<close>

theorem empty_query_lists_all:
  "repo_get_contacts_query u [] limit offset d = repo_get_contacts d u limit offset"
  by (simp add: repo_get_contacts_query_def repo_get_contacts_def lower_def lower_char_def
        like_percent_percent)

lemma like_percent_Cons: "like s ps \<Longrightarrow> like s (CHR ''%'' # ps)"
  by (cases s) auto

lemma like_refl: "like s s"
  by (induction s) (auto simp: like_percent_Cons)

lemma like_append: "like x p \<Longrightarrow> like y q \<Longrightarrow> like (x @ y) (p @ q)"
proof (induction x p rule: like.induct)
  case 1
  then show ?case by simp
next
  case (2 c s)
  then show ?case by simp
next
  case (3 p ps)
  then have p: "p = CHR ''%''" and ih: "like y (ps @ q)" by auto
  show ?case
  proof (cases y)
    case Nil
    with ih p show ?thesis by simp
  next
    case (Cons b y')
    with ih p show ?thesis by simp
  qed
next
  case (4 c s p ps)
  then show ?case by (auto split: if_splits)
qed

lemma lower_append: "lower (a @ b) = lower a @ lower b"
  by (simp add: lower_def)

lemma lower_wildcards: "lower ''%'' = ''%''" "lower ''_'' = ''_''"
  by (simp_all add: lower_def lower_char_def)

lemma like_underscore: "length m = 1 \<Longrightarrow> like m ''_''"
  by (cases m) auto

lemma like_wild:
  assumes "w = ''%'' \<or> (w = ''_'' \<and> length mid = 1)"
  shows "like (lower (pre @ q1 @ mid @ q2 @ post)) (lower (''%'' @ (q1 @ w @ q2) @ ''%''))"
proof -
  have m: "like (lower mid) (lower w)"
  proof -
    have "length (lower mid) = length mid" by (simp add: lower_def)
    then show ?thesis
      using assms by (auto simp: lower_wildcards like_underscore)
  qed
  have "like (lower pre @ lower q1 @ lower mid @ lower q2 @ lower post)
          (''%'' @ lower q1 @ lower w @ lower q2 @ ''%'')"
    by (intro like_append like_refl m like_percent)
  moreover have "lower (''%'' @ (q1 @ w @ q2) @ ''%'')
      = ''%'' @ lower q1 @ lower w @ lower q2 @ ''%''"
    using lower_wildcards(1) by (simp add: lower_def)
  ultimately show ?thesis
    by (simp only: lower_append)
qed

lemma take_all_filter: "take (length xs) (sort_key f (filter P xs)) = sort_key f (filter P xs)"
  by (simp add: le_trans [OF length_filter_le])



lemma upcoming_loop_ValueError:
  "c \<in> set cs \<Longrightarrow>
   datetime_date (year today) (month (b_day c)) (day (b_day c)) = Inl ValueError \<Longrightarrow>
   upcoming_loop today end_date cs acc = Inl ValueError"
proof (induction cs arbitrary: acc)
  case Nil
  then show ?case by simp
next
  case (Cons x xs)
  show ?case
  proof (cases "datetime_date (year today) (month (b_day x)) (day (b_day x))")
    case (Inl ex)
    then have "ex = ValueError" by (auto simp: datetime_date_def split: if_splits)
    with Inl show ?thesis by simp
  next
    case (Inr dt)
    with Cons show ?thesis by auto
  qed
qed

text \<open>
  In a year that is no leap year, one contact of the user born on a 29th of February makes
  \<open>repo_get_upcoming_birthday_contacts\<close> raise \<open>ValueError\<close>.
\<close>

lemma feb29_raises:
  assumes "\<not> is_leap (year today)" and "c \<in> set (db_contacts d)" and "user_id c = uid u"
    and "month (b_day c) = 2" and "day (b_day c) = 29"
  shows "repo_get_upcoming_birthday_contacts u today d = Inl ValueError"
proof -
  have "datetime_date (year today) (month (b_day c)) (day (b_day c)) = Inl ValueError"
    using assms by (simp add: datetime_date_def days_in_month_def)
  moreover have "c \<in> set (filter (\<lambda>c. user_id c = uid u) (db_contacts d))"
    using assms by simp
  ultimately show ?thesis
    unfolding repo_get_upcoming_birthday_contacts_def Let_def
    by (rule upcoming_loop_ValueError [rotated])
qed

text \<open>
  Claim C6 says that the upcoming-birthday query does not crash on a birth date of
  29 February in a year that is no leap year. The code does: on 25 February 2023, with one
  contact of the user born on 29 February 2000, the date constructor raises \<open>ValueError\<close>
  and the function ends with it.
\<close>

theorem upcoming_birthdays_feb29_raises:
  "repo_get_upcoming_birthday_contacts
     \<lparr>uid = 1, username = ''a'', email = ''a@x.com'', password = ''hash'', is_activated = True,
       avatar = None, refresh_token = None, reset_token = None, created_at = 1000\<rparr>
     (Date 2023 2 25)
     \<lparr>db_users = [],
      db_contacts = [\<lparr>cid = 5, first_name = ''Ann'', last_name = ''Lee'', c_email = ''al@x.com'',
         phone = ''123'', b_day = Date 2000 2 29, c_note = None, user_id = 1\<rparr>]\<rparr>
   = Inl ValueError"
  by (simp add: repo_get_upcoming_birthday_contacts_def datetime_date_def days_in_month_def
        is_leap_def)

end
